theory Spec2Isabelle
  imports Main "HOL-Library.Multiset" "HOL-Library.Sublist"
    "HOL-Library.Char_ord" "HOL-Library.List_Lexorder" "HOL-Library.Product_Lexorder"
begin

section \<open>Data model\<close>

text \<open>
  A cell of a pandas column of text: \<open>Some s\<close> is the string \<open>s\<close>, \<open>None\<close> is
  a missing value (NaN, a float). A row of the reference table
  (\<^verbatim>\<open>disbiome_with_titles.csv\<close>) carries the eight columns the script reads.
\<close>

type_synonym cell = "string option"

record row =
  Microbe :: cell
  Condition :: cell
  Effect :: cell
  Sample_Type :: cell
  Host :: cell
  Method :: cell
  Study_Title :: cell
  PubMed_Link :: cell

type_synonym table = "row list"

text \<open>
  The uploaded CSV as \<^verbatim>\<open>pd.read_csv\<close> returns it: named columns of cells, in file order.
\<close>

type_synonym frame = "(string \<times> cell list) list"

text \<open>
  How a run of the upload branch can end early: an uncaught Python exception
  (\<open>KeyError\<close>, \<open>AttributeError\<close>), or one of the script's own
  \<^verbatim>\<open>st.error(...); st.stop()\<close> exits. \<open>SchemaError\<close> is the exit of lines 23-25
  ("Your CSV must contain a column named 'Microbe'"), \<open>NoMatchError\<close> the exit of
  lines 39-41 ("None of your microbes were found in the reference."), and
  \<open>EmptyUploadError\<close> the exit of lines 49-51 (no file uploaded).
\<close>

datatype error = KeyError | AttributeError | SchemaError | NoMatchError | EmptyUploadError

section \<open>String primitives\<close>

text \<open>
  \<^verbatim>\<open>str.lower\<close> on the ASCII letters, \<^verbatim>\<open>str.startswith\<close> and \<^verbatim>\<open>str.strip\<close> (ASCII
  white space). Strings are byte lists; no theorem below depends on which
  characters \<open>lower\<close> changes.
\<close>

definition lower_char :: "char \<Rightarrow> char" where
  "lower_char c =
     (if (65::nat) \<le> of_char c \<and> of_char c \<le> (90::nat)
      then char_of (of_char c + (32::nat)) else c)"

definition lower :: "string \<Rightarrow> string" where
  "lower s = map lower_char s"

definition startswith :: "string \<Rightarrow> string \<Rightarrow> bool" where
  "startswith s p \<longleftrightarrow> take (length p) s = p"

definition isspace :: "char \<Rightarrow> bool" where
  "isspace c \<longleftrightarrow>
     (let n = (of_char c :: nat) in (9 \<le> n \<and> n \<le> 13) \<or> (28 \<le> n \<and> n \<le> 32))"

definition strip :: "string \<Rightarrow> string" where
  "strip s = rev (dropWhile isspace (rev (dropWhile isspace s)))"

section \<open>pandas and Python primitives\<close>

text \<open>
  \<^verbatim>\<open>Series.unique()\<close>: the distinct values in order of first appearance (a missing value
  is kept, once).
\<close>

fun unique :: "'a list \<Rightarrow> 'a list" where
  "unique [] = []"
| "unique (x # xs) = x # filter (\<lambda>y. y \<noteq> x) (unique xs)"

text \<open>
  \<^verbatim>\<open>ref.lower().startswith(q.lower())\<close>: a missing value is a float and has no
  \<^verbatim>\<open>lower\<close>, so the call raises \<open>AttributeError\<close>.
\<close>

definition prefix_match :: "cell \<Rightarrow> cell \<Rightarrow> error + bool" where
  "prefix_match ref q =
     (case ref of
        None \<Rightarrow> Inl AttributeError
      | Some r \<Rightarrow>
          (case q of
             None \<Rightarrow> Inl AttributeError
           | Some s \<Rightarrow> Inr (startswith (lower r) (lower s))))"

text \<open>
  \<^verbatim>\<open>any(f(x) for x in xs)\<close>: left to right, stopping at the first true value or at
  the first exception.
\<close>

fun py_any :: "('a \<Rightarrow> error + bool) \<Rightarrow> 'a list \<Rightarrow> error + bool" where
  "py_any f [] = Inr False"
| "py_any f (x # xs) =
     (case f x of
        Inl e \<Rightarrow> Inl e
      | Inr b \<Rightarrow> if b then Inr True else py_any f xs)"

text \<open>
  \<^verbatim>\<open>[x for x in xs if f(x)]\<close>: every element is tested; the first exception ends the
  comprehension.
\<close>

fun list_comp :: "('a \<Rightarrow> error + bool) \<Rightarrow> 'a list \<Rightarrow> error + 'a list" where
  "list_comp f [] = Inr []"
| "list_comp f (x # xs) =
     (case f x of
        Inl e \<Rightarrow> Inl e
      | Inr b \<Rightarrow>
          (case list_comp f xs of
             Inl e \<Rightarrow> Inl e
           | Inr ys \<Rightarrow> Inr (if b then x # ys else ys)))"

section \<open>The Matcher (lines 27-37)\<close>

text \<open>
  Line 28-30: \<^verbatim>\<open>reference_df[reference_df["Microbe"].apply(lambda ref: any(...))]\<close>.
  The lambda runs on every row's Microbe cell; the rows whose value is true are kept.
\<close>

definition working_df :: "table \<Rightarrow> cell list \<Rightarrow> error + table" where
  "working_df reference_df uploaded_microbes =
     list_comp (\<lambda>r. py_any (\<lambda>q. prefix_match (Microbe r) q) uploaded_microbes) reference_df"

text \<open>
  Lines 32-35: the loop over the queries that fills the set \<open>matched_microbes\<close>.
\<close>

fun matched_loop :: "cell list \<Rightarrow> cell list \<Rightarrow> cell set \<Rightarrow> error + cell set" where
  "matched_loop refs [] acc = Inr acc"
| "matched_loop refs (q # qs) acc =
     (case list_comp (\<lambda>ref. prefix_match ref q) refs of
        Inl e \<Rightarrow> Inl e
      | Inr matched \<Rightarrow> matched_loop refs qs (acc \<union> set matched))"

definition matched_microbes :: "table \<Rightarrow> cell list \<Rightarrow> error + cell set" where
  "matched_microbes reference_df uploaded_microbes =
     matched_loop (unique (map Microbe reference_df)) uploaded_microbes {}"

text \<open>
  Line 37: the queries that no reference row starts with.
\<close>

definition unmatched :: "table \<Rightarrow> cell list \<Rightarrow> error + cell list" where
  "unmatched reference_df uploaded_microbes =
     list_comp
       (\<lambda>m. case py_any (\<lambda>ref. prefix_match ref m) (map Microbe reference_df) of
               Inl e \<Rightarrow> Inl e
             | Inr b \<Rightarrow> Inr (\<not> b))
       uploaded_microbes"

text \<open>
  Lines 28-37 in order: the working table, the matched reference values, the unmatched
  queries.
\<close>

definition matcher :: "table \<Rightarrow> cell list \<Rightarrow> error + (table \<times> cell set \<times> cell list)" where
  "matcher reference_df uploaded_microbes =
     (case working_df reference_df uploaded_microbes of
        Inl e \<Rightarrow> Inl e
      | Inr w \<Rightarrow>
          (case matched_microbes reference_df uploaded_microbes of
             Inl e \<Rightarrow> Inl e
           | Inr mv \<Rightarrow>
               (case unmatched reference_df uploaded_microbes of
                  Inl e \<Rightarrow> Inl e
                | Inr um \<Rightarrow> Inr (w, mv, um))))"

text \<open>
  The match rule as a predicate: true exactly when both cells are strings and the
  lower-cased reference value starts with the lower-cased query.
\<close>

definition matches :: "cell \<Rightarrow> cell \<Rightarrow> bool" where
  "matches ref q \<longleftrightarrow>
     (case ref of
        None \<Rightarrow> False
      | Some r \<Rightarrow> (case q of None \<Rightarrow> False | Some s \<Rightarrow> startswith (lower r) (lower s)))"

section \<open>The upload branch (lines 16-51)\<close>

text \<open>
  Line 21 reads \<^verbatim>\<open>input_df["Microbe"]\<close> (a \<open>KeyError\<close> when the column is absent) and
  strips every string of it; the \<^verbatim>\<open>.str\<close> accessor raises \<open>AttributeError\<close> on a
  column that is not of text type, which is how pandas reads a non-empty column all of
  whose cells are missing. Lines 23-25 then test for the column, lines 27-37 match, and
  lines 39-41 stop when the working table is empty.
\<close>

definition str_strip :: "cell list \<Rightarrow> error + cell list" where
  "str_strip col =
     (if col \<noteq> [] \<and> (\<forall>c \<in> set col. c = None) then Inl AttributeError
      else Inr (map (map_option strip) col))"

fun set_column :: "frame \<Rightarrow> string \<Rightarrow> cell list \<Rightarrow> frame" where
  "set_column [] name col = [(name, col)]"
| "set_column ((n, c) # rest) name col =
     (if n = name then (n, col) # rest else (n, c) # set_column rest name col)"

definition upload_mode ::
  "table \<Rightarrow> frame option \<Rightarrow> error + (table \<times> cell set \<times> cell list)" where
  "upload_mode reference_df uploaded_file =
     (case uploaded_file of
        None \<Rightarrow> Inl EmptyUploadError
      | Some input_df \<Rightarrow>
          (case map_of input_df ''Microbe'' of
             None \<Rightarrow> Inl KeyError
           | Some col \<Rightarrow>
               (case str_strip col of
                  Inl e \<Rightarrow> Inl e
                | Inr stripped \<Rightarrow>
                    (let input_df' = set_column input_df ''Microbe'' stripped in
                     if ''Microbe'' \<notin> set (map fst input_df') then Inl SchemaError
                     else
                       (case map_of input_df' ''Microbe'' of
                          None \<Rightarrow> Inl KeyError
                        | Some col' \<Rightarrow>
                            (case matcher reference_df (unique col') of
                               Inl e \<Rightarrow> Inl e
                             | Inr (w, mv, um) \<Rightarrow>
                                 if w = [] then Inl NoMatchError
                                 else Inr (w, mv, um)))))))"

section \<open>The Filter Engine (lines 66-83)\<close>

text \<open>
  The five multiselect widgets return lists of strings. \<^verbatim>\<open>Series.isin(values)\<close> is
  true for a cell that is one of the values; a missing cell is in no list of strings.
\<close>

record selections =
  selected_microbe :: "string list"
  selected_condition :: "string list"
  selected_effect :: "string list"
  selected_sample :: "string list"
  selected_method :: "string list"

definition isin :: "cell \<Rightarrow> string list \<Rightarrow> bool" where
  "isin c vs \<longleftrightarrow> (case c of None \<Rightarrow> False | Some s \<Rightarrow> s \<in> set vs)"

text \<open>
  One \<^verbatim>\<open>if selected: filtered_df = filtered_df[filtered_df[col].isin(selected)]\<close>
  step; a non-empty list is true in Python.
\<close>

definition filter_step :: "(row \<Rightarrow> cell) \<Rightarrow> string list \<Rightarrow> table \<Rightarrow> table" where
  "filter_step col selected df =
     (if selected \<noteq> [] then filter (\<lambda>r. isin (col r) selected) df else df)"

text \<open>
  Lines 73-83: the five steps in the order Microbe, Condition, Effect, Sample Type,
  Method, starting from a copy of the working table.
\<close>

definition filtered_df :: "selections \<Rightarrow> table \<Rightarrow> table" where
  "filtered_df S working =
     filter_step Method (selected_method S)
       (filter_step Sample_Type (selected_sample S)
          (filter_step Effect (selected_effect S)
             (filter_step Condition (selected_condition S)
                (filter_step Microbe (selected_microbe S) working))))"

text \<open>
  The retention rule of one row: each column's selection is empty or holds the row's
  value.
\<close>

definition retained :: "selections \<Rightarrow> row \<Rightarrow> bool" where
  "retained S r \<longleftrightarrow>
     (selected_microbe S = [] \<or> isin (Microbe r) (selected_microbe S)) \<and>
     (selected_condition S = [] \<or> isin (Condition r) (selected_condition S)) \<and>
     (selected_effect S = [] \<or> isin (Effect r) (selected_effect S)) \<and>
     (selected_sample S = [] \<or> isin (Sample_Type r) (selected_sample S)) \<and>
     (selected_method S = [] \<or> isin (Method r) (selected_method S))"

text \<open>
  Two selection maps act on different columns when no column is constrained by both;
  their merge takes, column by column, the values of both.
\<close>

definition different_columns :: "selections \<Rightarrow> selections \<Rightarrow> bool" where
  "different_columns S1 S2 \<longleftrightarrow>
     (selected_microbe S1 = [] \<or> selected_microbe S2 = []) \<and>
     (selected_condition S1 = [] \<or> selected_condition S2 = []) \<and>
     (selected_effect S1 = [] \<or> selected_effect S2 = []) \<and>
     (selected_sample S1 = [] \<or> selected_sample S2 = []) \<and>
     (selected_method S1 = [] \<or> selected_method S2 = [])"

definition merged :: "selections \<Rightarrow> selections \<Rightarrow> selections" where
  "merged S1 S2 =
     \<lparr>selected_microbe = selected_microbe S1 @ selected_microbe S2,
      selected_condition = selected_condition S1 @ selected_condition S2,
      selected_effect = selected_effect S1 @ selected_effect S2,
      selected_sample = selected_sample S1 @ selected_sample S2,
      selected_method = selected_method S1 @ selected_method S2\<rparr>"

section \<open>The Sorter (lines 86-89)\<close>









section \<open>The Aggregator (lines 126-146)\<close>











section \<open>Example data\<close>

definition mk_row :: "string \<Rightarrow> string \<Rightarrow> string \<Rightarrow> row" where
  "mk_row m c e =
     \<lparr>Microbe = Some m, Condition = Some c, Effect = Some e, Sample_Type = Some ''Stool'',
      Host = Some ''Human'', Method = Some ''16S'', Study_Title = Some ''Study'',
      PubMed_Link = Some ''https://pubmed.ncbi.nlm.nih.gov/1''\<rparr>"

definition scenario_reference :: table where
  "scenario_reference =
     [mk_row ''Escherichia coli'' ''Obesity'' ''Increase'',
      mk_row ''Escherichia fergusonii'' ''Colitis'' ''Decrease'',
      mk_row ''Bacteroides fragilis'' ''Obesity'' ''Increase'']"

definition no_selection :: selections where
  "no_selection =
     \<lparr>selected_microbe = [], selected_condition = [], selected_effect = [],
      selected_sample = [], selected_method = []\<rparr>"

definition select_obesity :: selections where
  "select_obesity = no_selection\<lparr>selected_condition := [''Obesity'']\<rparr>"

definition select_increase :: selections where
  "select_increase = no_selection\<lparr>selected_effect := [''Increase'']\<rparr>"

definition select_asthma :: selections where
  "select_asthma = no_selection\<lparr>selected_condition := [''Asthma'']\<rparr>"


section \<open>Basic facts about the primitives\<close>

lemma py_any_Inr:
  "py_any f xs = Inr b \<Longrightarrow> b = (\<exists>x \<in> set xs. f x = Inr True)"
  by (induction xs arbitrary: b) (auto split: sum.splits if_splits)

lemma list_comp_Inr:
  "list_comp f xs = Inr ys \<Longrightarrow> ys = filter (\<lambda>x. f x = Inr True) xs"
  by (induction xs arbitrary: ys) (auto split: sum.splits if_splits)

lemma prefix_match_True: "prefix_match ref q = Inr True \<longleftrightarrow> matches ref q"
  by (auto simp: prefix_match_def matches_def split: option.splits)

section \<open>The Matcher returns the pure filter\<close>

lemma set_unique: "set (unique xs) = set xs"
  by (induction xs) auto

lemma py_any_total:
  "(\<And>x. x \<in> set xs \<Longrightarrow> \<exists>b. f x = Inr b) \<Longrightarrow> \<exists>b. py_any f xs = Inr b"
proof (induction xs)
  case Nil
  then show ?case by auto
next
  case (Cons x xs)
  then obtain b where b: "f x = Inr b" by fastforce
  from Cons obtain c where c: "py_any f xs = Inr c" by fastforce
  show ?case by (auto simp: b c)
qed

lemma list_comp_Inr_filter:
  "list_comp f xs = Inr ys \<Longrightarrow> (\<And>x b. x \<in> set xs \<Longrightarrow> f x = Inr b \<Longrightarrow> b = P x) \<Longrightarrow>
   ys = filter P xs"
proof (induction xs arbitrary: ys)
  case Nil
  then show ?case by simp
next
  case (Cons x xs)
  from Cons.prems(1) obtain b zs where b: "f x = Inr b" and zs: "list_comp f xs = Inr zs"
    and ys: "ys = (if b then x # zs else zs)"
    by (auto split: sum.splits)
  have "zs = filter P xs" by (rule Cons.IH[OF zs]) (simp add: Cons.prems(2))
  moreover have "b = P x" by (rule Cons.prems(2)[OF _ b]) simp
  ultimately show ?case using ys by simp
qed

lemma list_comp_total:
  "(\<And>x. x \<in> set xs \<Longrightarrow> \<exists>b. f x = Inr b) \<Longrightarrow> \<exists>ys. list_comp f xs = Inr ys"
proof (induction xs)
  case Nil
  then show ?case by simp
next
  case (Cons x xs)
  then obtain b where b: "f x = Inr b" by fastforce
  from Cons obtain ys where ys: "list_comp f xs = Inr ys" by fastforce
  show ?case by (simp add: b ys)
qed

lemma list_comp_all_Inr:
  "list_comp f xs = Inr ys \<Longrightarrow> x \<in> set xs \<Longrightarrow> \<exists>b. f x = Inr b"
  by (induction xs arbitrary: ys) (auto split: sum.splits)

lemma prefix_match_total:
  "ref \<noteq> None \<Longrightarrow> q \<noteq> None \<Longrightarrow> \<exists>b. prefix_match ref q = Inr b"
  by (auto simp: prefix_match_def split: option.splits)

lemma prefix_match_Inr_nonnull:
  "prefix_match ref q = Inr b \<Longrightarrow> ref \<noteq> None \<and> q \<noteq> None"
  by (auto simp: prefix_match_def split: option.splits)

lemma working_df_Inr:
  "working_df ref Q = Inr w \<Longrightarrow> w = filter (\<lambda>r. \<exists>q \<in> set Q. matches (Microbe r) q) ref"
  unfolding working_df_def
  by (erule list_comp_Inr_filter) (auto dest!: py_any_Inr simp: prefix_match_True)

lemma matched_loop_Inr:
  "matched_loop refs Q acc = Inr mv \<Longrightarrow>
   mv = acc \<union> {m \<in> set refs. \<exists>q \<in> set Q. matches m q}"
proof (induction Q arbitrary: acc)
  case Nil
  then show ?case by simp
next
  case (Cons q qs)
  then obtain matched where m: "list_comp (\<lambda>ref. prefix_match ref q) refs = Inr matched"
    and l: "matched_loop refs qs (acc \<union> set matched) = Inr mv"
    by (auto split: sum.splits)
  from list_comp_Inr[OF m] have "set matched = {m \<in> set refs. matches m q}"
    by (auto simp: prefix_match_True)
  with Cons.IH[OF l] show ?case by auto
qed

lemma matched_microbes_Inr:
  "matched_microbes ref Q = Inr mv \<Longrightarrow>
   mv = {m \<in> set (map Microbe ref). \<exists>q \<in> set Q. matches m q}"
  unfolding matched_microbes_def
  by (drule matched_loop_Inr) (simp add: set_unique)

lemma unmatched_Inr:
  "unmatched ref Q = Inr um \<Longrightarrow>
   um = filter (\<lambda>q. \<not> (\<exists>r \<in> set ref. matches (Microbe r) q)) Q"
  unfolding unmatched_def
  by (erule list_comp_Inr_filter) (auto split: sum.splits dest!: py_any_Inr simp: prefix_match_True)

lemma matcher_Inr:
  "matcher ref Q = Inr (w, mv, um) \<Longrightarrow>
     working_df ref Q = Inr w \<and> matched_microbes ref Q = Inr mv \<and> unmatched ref Q = Inr um"
  by (auto simp: matcher_def split: sum.splits)

lemma matched_loop_total:
  "(\<And>m. m \<in> set refs \<Longrightarrow> m \<noteq> None) \<Longrightarrow> (\<And>q. q \<in> set Q \<Longrightarrow> q \<noteq> None) \<Longrightarrow>
   \<exists>mv. matched_loop refs Q acc = Inr mv"
proof (induction Q arbitrary: acc)
  case Nil
  then show ?case by simp
next
  case (Cons q qs)
  have "\<exists>ys. list_comp (\<lambda>ref. prefix_match ref q) refs = Inr ys"
    by (rule list_comp_total) (simp add: Cons.prems prefix_match_total)
  then obtain ys where ys: "list_comp (\<lambda>ref. prefix_match ref q) refs = Inr ys" ..
  from Cons.IH[of "acc \<union> set ys"] Cons.prems
  obtain mv where "matched_loop refs qs (acc \<union> set ys) = Inr mv" by auto
  with ys show ?case by simp
qed

lemma matcher_total:
  assumes r: "\<forall>r \<in> set ref. Microbe r \<noteq> None" and q: "\<forall>q \<in> set Q. q \<noteq> None"
  shows "\<exists>res. matcher ref Q = Inr res"
proof -
  have "\<exists>w. working_df ref Q = Inr w"
    unfolding working_df_def
    by (intro list_comp_total py_any_total prefix_match_total) (use r q in auto)
  moreover have "\<exists>mv. matched_microbes ref Q = Inr mv"
    unfolding matched_microbes_def
    by (rule matched_loop_total) (use r q in \<open>auto simp: set_unique\<close>)
  moreover have "\<exists>um. unmatched ref Q = Inr um"
    unfolding unmatched_def
  proof (rule list_comp_total)
    fix m assume "m \<in> set Q"
    then have "\<exists>b. py_any (\<lambda>ref. prefix_match ref m) (map Microbe ref) = Inr b"
      by (intro py_any_total prefix_match_total) (use r q in auto)
    then show "\<exists>b. (case py_any (\<lambda>ref. prefix_match ref m) (map Microbe ref) of
                      Inl e \<Rightarrow> Inl e | Inr b \<Rightarrow> Inr (\<not> b)) = Inr b"
      by auto
  qed
  ultimately show ?thesis by (auto simp: matcher_def)
qed

lemma matcher_nonnull_refs:
  assumes "matcher ref Q = Inr (w, mv, um)" and "Q \<noteq> []"
  shows "\<forall>r \<in> set ref. Microbe r \<noteq> None"
proof
  fix r assume r: "r \<in> set ref"
  from assms(2) obtain q qs where Q: "Q = q # qs" by (cases Q) auto
  from matcher_Inr[OF assms(1)] have "matched_microbes ref Q = Inr mv" by simp
  then obtain ys where "list_comp (\<lambda>ref. prefix_match ref q) (unique (map Microbe ref)) = Inr ys"
    by (auto simp: matched_microbes_def Q split: sum.splits)
  from list_comp_all_Inr[OF this, of "Microbe r"] r
  obtain b where "prefix_match (Microbe r) q = Inr b" by (auto simp: set_unique)
  then show "Microbe r \<noteq> None" by (simp add: prefix_match_Inr_nonnull)
qed

section \<open>The upload branch around the Matcher\<close>


lemma map_of_set_column: "map_of (set_column f n c) n = Some c"
  by (induction f n c rule: set_column.induct) auto

lemma set_column_has: "n \<in> set (map fst (set_column f n c))"
  by (induction f n c rule: set_column.induct) auto

lemma py_any_Inl: "py_any f xs = Inl e \<Longrightarrow> \<exists>x \<in> set xs. f x = Inl e"
  by (induction xs) (auto split: sum.splits if_splits)

lemma list_comp_Inl: "list_comp f xs = Inl e \<Longrightarrow> \<exists>x \<in> set xs. f x = Inl e"
  by (induction xs) (auto split: sum.splits if_splits)

lemma prefix_match_Inl: "prefix_match ref q = Inl e \<Longrightarrow> e = AttributeError"
  by (auto simp: prefix_match_def split: option.splits)

lemma matched_loop_Inl: "matched_loop refs Q acc = Inl e \<Longrightarrow> e = AttributeError"
  by (induction Q arbitrary: acc)
     (auto split: sum.splits dest!: list_comp_Inl prefix_match_Inl)

lemma matcher_Inl:
  assumes "matcher reference_df Q = Inl e"
  shows "e = AttributeError"
proof -
  have w: "working_df reference_df Q = Inl e \<Longrightarrow> e = AttributeError"
    unfolding working_df_def
    by (auto dest!: list_comp_Inl py_any_Inl prefix_match_Inl)
  have m: "matched_microbes reference_df Q = Inl e \<Longrightarrow> e = AttributeError"
    unfolding matched_microbes_def by (rule matched_loop_Inl)
  have u: "unmatched reference_df Q = Inl e \<Longrightarrow> e = AttributeError"
    unfolding unmatched_def
    by (auto dest!: list_comp_Inl py_any_Inl prefix_match_Inl split: sum.splits)
  from assms w m u show ?thesis
    by (auto simp: matcher_def split: sum.splits)
qed

lemma upload_mode_matcher:
  assumes "map_of input_df ''Microbe'' = Some col" and "str_strip col = Inr stripped"
  shows "upload_mode reference_df (Some input_df) =
     (case matcher reference_df (unique stripped) of
        Inl e \<Rightarrow> Inl e
      | Inr (w, mv, um) \<Rightarrow> if w = [] then Inl NoMatchError else Inr (w, mv, um))"
  using assms set_column_has[of "''Microbe''" input_df stripped]
  by (simp add: upload_mode_def Let_def map_of_set_column del: set_map)

lemma upload_mode_Inr:
  assumes "upload_mode reference_df uploaded_file = Inr (w, mv, um)"
  shows "\<exists>input_df col. uploaded_file = Some input_df \<and> map_of input_df ''Microbe'' = Some col \<and>
           matcher reference_df (unique (map (map_option strip) col)) = Inr (w, mv, um) \<and> w \<noteq> []"
proof -
  from assms obtain input_df where f: "uploaded_file = Some input_df"
    by (cases uploaded_file) (auto simp: upload_mode_def)
  from assms f obtain col where c: "map_of input_df ''Microbe'' = Some col"
    by (cases "map_of input_df ''Microbe''") (auto simp: upload_mode_def)
  from assms f c obtain stripped where s: "str_strip col = Inr stripped"
    by (cases "str_strip col") (auto simp: upload_mode_def)
  then have st: "stripped = map (map_option strip) col"
    by (auto simp: str_strip_def split: if_splits)
  from assms have "matcher reference_df (unique stripped) = Inr (w, mv, um) \<and> w \<noteq> []"
    unfolding f upload_mode_matcher[OF c s]
    by (auto split: sum.splits prod.splits if_splits)
  with f c st show ?thesis by blast
qed

lemma schema_error_unreachable: "upload_mode reference_df uploaded_file \<noteq> Inl SchemaError"
proof (cases uploaded_file)
  case None
  then show ?thesis by (simp add: upload_mode_def)
next
  case (Some input_df)
  show ?thesis
  proof (cases "map_of input_df ''Microbe''")
    case None
    with Some show ?thesis by (simp add: upload_mode_def)
  next
    case c: (Some col)
    show ?thesis
    proof (cases "str_strip col")
      case (Inl e)
      then have "e = AttributeError" by (auto simp: str_strip_def split: if_splits)
      with Inl Some c show ?thesis by (simp add: upload_mode_def)
    next
      case (Inr stripped)
      have "matcher reference_df Q \<noteq> Inl SchemaError" for Q
        using matcher_Inl[of reference_df Q SchemaError] by auto
      then show ?thesis unfolding Some upload_mode_matcher[OF c Inr]
        by (auto split: sum.splits prod.splits)
    qed
  qed
qed

lemma strip_blank:
  assumes "\<forall>c \<in> set s. isspace c"
  shows "strip s = []"
proof -
  from assms have d: "dropWhile isspace s = []" by (induction s) auto
  show ?thesis unfolding strip_def d by simp
qed

lemma working_empty_iff:
  assumes "matcher reference_df Q = Inr (w, mv, um)"
  shows "w = [] \<longleftrightarrow> um = Q"
proof -
  from matcher_Inr[OF assms] have w: "working_df reference_df Q = Inr w"
    and u: "unmatched reference_df Q = Inr um" by simp_all
  note wf = working_df_Inr[OF w] and uf = unmatched_Inr[OF u]
  have "w = [] \<longleftrightarrow> (\<forall>r \<in> set reference_df. \<forall>q \<in> set Q. \<not> matches (Microbe r) q)"
    by (subst wf) (auto simp: filter_empty_conv)
  also have "\<dots> \<longleftrightarrow> um = Q"
    by (subst uf) (auto simp: filter_id_conv)
  finally show ?thesis .
qed

section \<open>The Filter Engine as one filter\<close>

lemma filter_step_filter:
  "filter_step col selected df = filter (\<lambda>r. selected = [] \<or> isin (col r) selected) df"
  by (simp add: filter_step_def)

lemma filtered_df_filter: "filtered_df S T = filter (retained S) T"
  unfolding filtered_df_def filter_step_filter filter_filter retained_def
  by (rule filter_cong[OF refl]) (simp add: conj_ac)

lemma isin_append: "isin c (xs @ ys) \<longleftrightarrow> isin c xs \<or> isin c ys"
  by (auto simp: isin_def split: option.splits)

lemma isin_Nil: "\<not> isin c []"
  by (simp add: isin_def split: option.splits)

lemma constraint_append:
  "a = [] \<or> b = [] \<Longrightarrow>
   (a @ b = [] \<or> isin c (a @ b)) \<longleftrightarrow> (a = [] \<or> isin c a) \<and> (b = [] \<or> isin c b)"
  by (auto simp: isin_append isin_Nil)

lemma retained_merged:
  assumes "different_columns S1 S2"
  shows "retained (merged S1 S2) r \<longleftrightarrow> retained S1 r \<and> retained S2 r"
proof -
  from assms have
    m: "selected_microbe S1 = [] \<or> selected_microbe S2 = []" and
    c: "selected_condition S1 = [] \<or> selected_condition S2 = []" and
    e: "selected_effect S1 = [] \<or> selected_effect S2 = []" and
    s: "selected_sample S1 = [] \<or> selected_sample S2 = []" and
    t: "selected_method S1 = [] \<or> selected_method S2 = []"
    by (simp_all add: different_columns_def)
  have "retained (merged S1 S2) r \<longleftrightarrow>
      ((selected_microbe S1 = [] \<or> isin (Microbe r) (selected_microbe S1)) \<and>
       (selected_microbe S2 = [] \<or> isin (Microbe r) (selected_microbe S2))) \<and>
      ((selected_condition S1 = [] \<or> isin (Condition r) (selected_condition S1)) \<and>
       (selected_condition S2 = [] \<or> isin (Condition r) (selected_condition S2))) \<and>
      ((selected_effect S1 = [] \<or> isin (Effect r) (selected_effect S1)) \<and>
       (selected_effect S2 = [] \<or> isin (Effect r) (selected_effect S2))) \<and>
      ((selected_sample S1 = [] \<or> isin (Sample_Type r) (selected_sample S1)) \<and>
       (selected_sample S2 = [] \<or> isin (Sample_Type r) (selected_sample S2))) \<and>
      ((selected_method S1 = [] \<or> isin (Method r) (selected_method S1)) \<and>
       (selected_method S2 = [] \<or> isin (Method r) (selected_method S2)))"
    unfolding retained_def merged_def
    by (simp only: selections.simps constraint_append[OF m] constraint_append[OF c]
        constraint_append[OF e] constraint_append[OF s] constraint_append[OF t])
  also have "\<dots> \<longleftrightarrow> retained S1 r \<and> retained S2 r"
    unfolding retained_def by (simp only: conj_ac)
  finally show ?thesis .
qed

section \<open>Sorts that meet the library contracts\<close>






section \<open>What the contracts determine\<close>

















section \<open>Evaluated examples\<close>

lemma scenario_escher:
  "matcher scenario_reference [Some ''escher''] =
     Inr (take 2 scenario_reference,
          {Some ''Escherichia coli'', Some ''Escherichia fergusonii''}, [])"
  by code_simp

lemma scenario_partition:
  "matcher scenario_reference
     [Some ''escher'', Some ''Nonexistent Genus'', Some ''BACTEROIDES'', Some ''zzz''] =
   Inr (scenario_reference,
        {Some ''Escherichia coli'', Some ''Escherichia fergusonii'', Some ''Bacteroides fragilis''},
        [Some ''Nonexistent Genus'', Some ''zzz''])"
  by code_simp

section \<open>Claims about the Matcher\<close>

text \<open>
  C1 (Matcher membership rule). Whenever lines 28-37 run to the end, the working table
  is the reference table filtered by "the row's Microbe, lower-cased, starts with some
  lower-cased query"; a row is in it exactly when it is a reference row with that
  property; and \<open>matched_microbes\<close> is exactly the set of reference Microbe values
  that match at least one query. When no Microbe cell and no query is missing, the lines
  do run to the end.
\<close>

theorem matcher_membership:
  "(matcher reference_df Q = Inr (w, mv, um) \<longrightarrow>
      w = filter (\<lambda>r. \<exists>q \<in> set Q. matches (Microbe r) q) reference_df \<and>
      (\<forall>r. r \<in> set w \<longleftrightarrow> r \<in> set reference_df \<and> (\<exists>q \<in> set Q. matches (Microbe r) q)) \<and>
      mv = {m \<in> set (map Microbe reference_df). \<exists>q \<in> set Q. matches m q}) \<and>
   ((\<forall>r \<in> set reference_df. Microbe r \<noteq> None) \<and> (\<forall>q \<in> set Q. q \<noteq> None) \<longrightarrow>
      (\<exists>w' mv' um'. matcher reference_df Q = Inr (w', mv', um')))"
proof (intro conjI impI)
  assume m: "matcher reference_df Q = Inr (w, mv, um)"
  from matcher_Inr[OF m] have w: "working_df reference_df Q = Inr w"
    and mv: "matched_microbes reference_df Q = Inr mv" by simp_all
  show wf: "w = filter (\<lambda>r. \<exists>q \<in> set Q. matches (Microbe r) q) reference_df"
    by (rule working_df_Inr[OF w])
  show "\<forall>r. r \<in> set w \<longleftrightarrow> r \<in> set reference_df \<and> (\<exists>q \<in> set Q. matches (Microbe r) q)"
    by (subst wf) simp
  show "mv = {m \<in> set (map Microbe reference_df). \<exists>q \<in> set Q. matches m q}"
    by (rule matched_microbes_Inr[OF mv])
next
  assume "(\<forall>r \<in> set reference_df. Microbe r \<noteq> None) \<and> (\<forall>q \<in> set Q. q \<noteq> None)"
  then have "\<exists>res. matcher reference_df Q = Inr res" using matcher_total[of reference_df Q] by blast
  then show "\<exists>w' mv' um'. matcher reference_df Q = Inr (w', mv', um')" by auto
qed

theorem matcher_membership_witness:
  "matcher scenario_reference [Some ''escher''] =
     Inr (take 2 scenario_reference,
          {Some ''Escherichia coli'', Some ''Escherichia fergusonii''}, []) \<and>
   take 2 scenario_reference =
     filter (\<lambda>r. \<exists>q \<in> set [Some ''escher'']. matches (Microbe r) q) scenario_reference \<and>
   {Some ''Escherichia coli'', Some ''Escherichia fergusonii''} =
     {m \<in> set (map Microbe scenario_reference). \<exists>q \<in> set [Some ''escher'']. matches m q}"
proof -
  note h = scenario_escher
  from matcher_membership[of scenario_reference "[Some ''escher'']" "take 2 scenario_reference"
      "{Some ''Escherichia coli'', Some ''Escherichia fergusonii''}" "[]"] h
  show ?thesis by blast
qed

text \<open>
  C4 (Matcher partition). On every successful run, the unmatched list is the query list
  filtered, in its order and with nothing else removed, by "no reference row matches";
  together with the queries that have a match it makes up the whole query set, and the
  two sets share no element.
\<close>

theorem matcher_partition:
  assumes "matcher reference_df Q = Inr (w, mv, um)"
  shows "um = filter (\<lambda>q. \<not> (\<exists>r \<in> set reference_df. matches (Microbe r) q)) Q \<and>
     set um \<union> {q \<in> set Q. \<exists>r \<in> set reference_df. matches (Microbe r) q} = set Q \<and>
     set um \<inter> {q \<in> set Q. \<exists>r \<in> set reference_df. matches (Microbe r) q} = {} \<and>
     subseq um Q"
proof -
  from matcher_Inr[OF assms] have "unmatched reference_df Q = Inr um" by simp
  from unmatched_Inr[OF this]
  have um: "um = filter (\<lambda>q. \<not> (\<exists>r \<in> set reference_df. matches (Microbe r) q)) Q" .
  have "subseq um Q" by (subst um) (rule subseq_filter_left)
  moreover have "set um \<union> {q \<in> set Q. \<exists>r \<in> set reference_df. matches (Microbe r) q} = set Q"
    by (subst um) auto
  moreover have "set um \<inter> {q \<in> set Q. \<exists>r \<in> set reference_df. matches (Microbe r) q} = {}"
    by (subst um) auto
  ultimately show ?thesis using um by blast
qed

theorem matcher_partition_witness:
  "matcher scenario_reference
     [Some ''escher'', Some ''Nonexistent Genus'', Some ''BACTEROIDES'', Some ''zzz''] =
   Inr (scenario_reference,
        {Some ''Escherichia coli'', Some ''Escherichia fergusonii'', Some ''Bacteroides fragilis''},
        [Some ''Nonexistent Genus'', Some ''zzz'']) \<and>
   [Some ''Nonexistent Genus'', Some ''zzz''] =
     filter (\<lambda>q. \<not> (\<exists>r \<in> set scenario_reference. matches (Microbe r) q))
       [Some ''escher'', Some ''Nonexistent Genus'', Some ''BACTEROIDES'', Some ''zzz''] \<and>
   subseq [Some ''Nonexistent Genus'', Some ''zzz'']
     [Some ''escher'', Some ''Nonexistent Genus'', Some ''BACTEROIDES'', Some ''zzz'']"
  using matcher_partition[OF scenario_partition] scenario_partition by blast

text \<open>
  C8 (NoMatchError). When the uploaded file has a Microbe column that strips and the
  match leaves the working table empty, the upload branch ends in the NoMatchError exit
  and returns no table; that exit is not the SchemaError exit; and the working table is
  empty exactly when every query is in the unmatched list. A run that does return a
  table returns a non-empty one.
\<close>

theorem no_match_error:
  "(map_of input_df ''Microbe'' = Some col \<and> str_strip col = Inr stripped \<and>
    matcher reference_df (unique stripped) = Inr ([], mv, um) \<longrightarrow>
      upload_mode reference_df (Some input_df) = Inl NoMatchError \<and> um = unique stripped) \<and>
   (matcher reference_df Q = Inr (w, mv', um') \<longrightarrow> (w = [] \<longleftrightarrow> um' = Q)) \<and>
   (upload_mode reference_df uploaded_file = Inr (w', mv'', um'') \<longrightarrow> w' \<noteq> []) \<and>
   NoMatchError \<noteq> SchemaError"
proof (intro conjI impI)
  assume a: "map_of input_df ''Microbe'' = Some col \<and> str_strip col = Inr stripped \<and>
    matcher reference_df (unique stripped) = Inr ([], mv, um)"
  then show "upload_mode reference_df (Some input_df) = Inl NoMatchError"
    by (simp add: upload_mode_matcher)
  from a working_empty_iff[of reference_df "unique stripped" "[]" mv um]
  show "um = unique stripped" by simp
next
  assume "matcher reference_df Q = Inr (w, mv', um')"
  then show "w = [] \<longleftrightarrow> um' = Q" by (rule working_empty_iff)
next
  assume "upload_mode reference_df uploaded_file = Inr (w', mv'', um'')"
  from upload_mode_Inr[OF this] show "w' \<noteq> []" by blast
qed simp

theorem no_match_error_witness:
  "map_of [(''Microbe'', [Some ''Nonexistent Genus''])] ''Microbe'' = Some [Some ''Nonexistent Genus''] \<and>
   str_strip [Some ''Nonexistent Genus''] = Inr [Some ''Nonexistent Genus''] \<and>
   matcher scenario_reference (unique [Some ''Nonexistent Genus'']) =
     Inr ([], {}, [Some ''Nonexistent Genus'']) \<and>
   upload_mode scenario_reference (Some [(''Microbe'', [Some ''Nonexistent Genus''])]) =
     Inl NoMatchError"
proof -
  have 1: "map_of [(''Microbe'', [Some ''Nonexistent Genus''])] ''Microbe'' =
      Some [Some ''Nonexistent Genus'']"
    by simp
  have 2: "str_strip [Some ''Nonexistent Genus''] = Inr [Some ''Nonexistent Genus'']"
    by code_simp
  have 3: "matcher scenario_reference (unique [Some ''Nonexistent Genus'']) =
      Inr ([], {}, [Some ''Nonexistent Genus''])"
    by code_simp
  from no_match_error[of "[(''Microbe'', [Some ''Nonexistent Genus''])]"
      "[Some ''Nonexistent Genus'']" "[Some ''Nonexistent Genus'']" scenario_reference
      "{}" "[Some ''Nonexistent Genus'']"] 1 2 3
  show ?thesis by blast
qed

text \<open>
  C9 (blank query). When the query list holds the empty string, every successful match
  returns the whole reference table as the working table, and the match does succeed
  when no Microbe cell and no query is missing. An uploaded cell made of white space
  only is such a query after line 21 has stripped it.
\<close>

theorem blank_query_matches_all:
  "(Some [] \<in> set Q \<and> matcher reference_df Q = Inr (w, mv, um) \<longrightarrow> w = reference_df) \<and>
   (Some [] \<in> set Q \<and> (\<forall>r \<in> set reference_df. Microbe r \<noteq> None) \<and> (\<forall>q \<in> set Q. q \<noteq> None) \<longrightarrow>
      (\<exists>mv' um'. matcher reference_df Q = Inr (reference_df, mv', um'))) \<and>
   (map_of input_df ''Microbe'' = Some col \<and> Some s \<in> set col \<and> (\<forall>c \<in> set s. isspace c) \<and>
    upload_mode reference_df (Some input_df) = Inr (w', mv'', um'') \<longrightarrow> w' = reference_df)"
proof -
  have blank: "w0 = reference_df"
    if q: "Some [] \<in> set Q0" and m: "matcher reference_df Q0 = Inr (w0, mv0, um0)"
    for Q0 w0 mv0 um0
  proof -
    from q have "Q0 \<noteq> []" by auto
    from matcher_nonnull_refs[OF m this]
    have nn: "\<forall>r \<in> set reference_df. Microbe r \<noteq> None" .
    have "matches (Microbe r) (Some [])" if "r \<in> set reference_df" for r
      using nn that by (auto simp: matches_def startswith_def lower_def)
    with q have "\<forall>r \<in> set reference_df. \<exists>q \<in> set Q0. matches (Microbe r) q" by blast
    moreover from matcher_Inr[OF m] have "working_df reference_df Q0 = Inr w0" by simp
    from working_df_Inr[OF this]
    have "w0 = filter (\<lambda>r. \<exists>q \<in> set Q0. matches (Microbe r) q) reference_df" .
    ultimately show ?thesis by (simp add: filter_id_conv)
  qed
  show ?thesis
  proof (intro conjI impI)
    assume "Some [] \<in> set Q \<and> matcher reference_df Q = Inr (w, mv, um)"
    then show "w = reference_df" using blank by blast
  next
    assume a: "Some [] \<in> set Q \<and> (\<forall>r \<in> set reference_df. Microbe r \<noteq> None) \<and>
      (\<forall>q \<in> set Q. q \<noteq> None)"
    with matcher_total[of reference_df Q]
    obtain w0 mv0 um0 where m: "matcher reference_df Q = Inr (w0, mv0, um0)" by auto
    with a blank have "w0 = reference_df" by blast
    with m show "\<exists>mv' um'. matcher reference_df Q = Inr (reference_df, mv', um')" by blast
  next
    assume a: "map_of input_df ''Microbe'' = Some col \<and> Some s \<in> set col \<and>
      (\<forall>c \<in> set s. isspace c) \<and>
      upload_mode reference_df (Some input_df) = Inr (w', mv'', um'')"
    then have "strip s = []" by (simp add: strip_blank)
    with a have "Some [] \<in> set (unique (map (map_option strip) col))"
      by (force simp: set_unique)
    moreover from a upload_mode_Inr[of reference_df "Some input_df" w' mv'' um'']
    have "matcher reference_df (unique (map (map_option strip) col)) = Inr (w', mv'', um'')"
      by auto
    ultimately show "w' = reference_df" using blank by blast
  qed
qed

theorem blank_query_matches_all_witness:
  "upload_mode scenario_reference
     (Some [(''Sample'', [Some ''a'', Some ''b'']), (''Microbe'', [Some ''  '', Some ''zzz''])]) =
   Inr (scenario_reference,
        {Some ''Escherichia coli'', Some ''Escherichia fergusonii'', Some ''Bacteroides fragilis''},
        [Some ''zzz'']) \<and>
   matcher scenario_reference [Some [], Some ''zzz''] =
   Inr (scenario_reference,
        {Some ''Escherichia coli'', Some ''Escherichia fergusonii'', Some ''Bacteroides fragilis''},
        [Some ''zzz''])"
proof -
  have u: "upload_mode scenario_reference
     (Some [(''Sample'', [Some ''a'', Some ''b'']), (''Microbe'', [Some ''  '', Some ''zzz''])]) =
   Inr (scenario_reference,
        {Some ''Escherichia coli'', Some ''Escherichia fergusonii'', Some ''Bacteroides fragilis''},
        [Some ''zzz''])"
    by code_simp
  have m: "matcher scenario_reference [Some [], Some ''zzz''] =
   Inr (scenario_reference,
        {Some ''Escherichia coli'', Some ''Escherichia fergusonii'', Some ''Bacteroides fragilis''},
        [Some ''zzz''])"
    by code_simp
  have q: "Some [] \<in> set [Some [], Some ''zzz'']" by simp
  have c: "map_of [(''Sample'', [Some ''a'', Some ''b'']), (''Microbe'', [Some ''  '', Some ''zzz''])]
      ''Microbe'' = Some [Some ''  '', Some ''zzz'']"
    by simp
  have sp: "\<forall>c \<in> set ''  ''. isspace c" by code_simp
  have nr: "\<forall>r \<in> set scenario_reference. Microbe r \<noteq> None"
    by (simp add: scenario_reference_def mk_row_def)
  from blank_query_matches_all[of "[Some [], Some ''zzz'']" scenario_reference scenario_reference
      "{Some ''Escherichia coli'', Some ''Escherichia fergusonii'', Some ''Bacteroides fragilis''}"
      "[Some ''zzz'']"
      "[(''Sample'', [Some ''a'', Some ''b'']), (''Microbe'', [Some ''  '', Some ''zzz''])]"
      "[Some ''  '', Some ''zzz'']" "''  ''" scenario_reference
      "{Some ''Escherichia coli'', Some ''Escherichia fergusonii'', Some ''Bacteroides fragilis''}"
      "[Some ''zzz'']"] u m q c sp nr
  show ?thesis by blast
qed

text \<open>
  C3 (missing Microbe column). For an uploaded file whose only column is named Name,
  line 21 raises KeyError before the test of lines 23-25 is reached: the run does not
  end in the SchemaError exit.
\<close>

theorem missing_column_raises_KeyError:
  "upload_mode scenario_reference (Some [(''Name'', [Some ''Escherichia''])]) = Inl KeyError \<and>
   upload_mode scenario_reference (Some [(''Name'', [Some ''Escherichia''])]) \<noteq> Inl SchemaError"
  by code_simp

section \<open>Claims about the Filter Engine\<close>

text \<open>
  C6 (Filter Engine). A row is in the filtered table exactly when it is a row of the
  input table and, for each of Microbe, Condition, Effect, Sample Type and Method, the
  selection is empty or holds the row's value; the engine is the filter by the
  conjunction of the five constraints; and when no row passes, the result is the empty
  table, an ordinary value.
\<close>

theorem filter_engine_retention:
  "(r \<in> set (filtered_df S T) \<longleftrightarrow>
      r \<in> set T \<and>
      (selected_microbe S = [] \<or> isin (Microbe r) (selected_microbe S)) \<and>
      (selected_condition S = [] \<or> isin (Condition r) (selected_condition S)) \<and>
      (selected_effect S = [] \<or> isin (Effect r) (selected_effect S)) \<and>
      (selected_sample S = [] \<or> isin (Sample_Type r) (selected_sample S)) \<and>
      (selected_method S = [] \<or> isin (Method r) (selected_method S))) \<and>
   filtered_df S T = filter (retained S) T \<and>
   ((\<forall>x \<in> set T. \<not> retained S x) \<longrightarrow> filtered_df S T = [])"
proof (intro conjI impI)
  show "r \<in> set (filtered_df S T) \<longleftrightarrow>
      r \<in> set T \<and>
      (selected_microbe S = [] \<or> isin (Microbe r) (selected_microbe S)) \<and>
      (selected_condition S = [] \<or> isin (Condition r) (selected_condition S)) \<and>
      (selected_effect S = [] \<or> isin (Effect r) (selected_effect S)) \<and>
      (selected_sample S = [] \<or> isin (Sample_Type r) (selected_sample S)) \<and>
      (selected_method S = [] \<or> isin (Method r) (selected_method S))"
    by (simp add: filtered_df_filter retained_def)
  show "filtered_df S T = filter (retained S) T" by (rule filtered_df_filter)
  assume "\<forall>x \<in> set T. \<not> retained S x"
  then show "filtered_df S T = []" by (simp add: filtered_df_filter filter_empty_conv)
qed

theorem filter_engine_retention_witness:
  "filtered_df select_asthma scenario_reference = [] \<and>
   filtered_df select_obesity scenario_reference =
     [mk_row ''Escherichia coli'' ''Obesity'' ''Increase'',
      mk_row ''Bacteroides fragilis'' ''Obesity'' ''Increase''] \<and>
   mk_row ''Escherichia fergusonii'' ''Colitis'' ''Decrease''
     \<notin> set (filtered_df select_obesity scenario_reference)"
proof -
  have h: "\<forall>x \<in> set scenario_reference. \<not> retained select_asthma x"
    by (simp add: scenario_reference_def mk_row_def retained_def select_asthma_def
        no_selection_def isin_def)
  have o: "filter (retained select_obesity) scenario_reference =
     [mk_row ''Escherichia coli'' ''Obesity'' ''Increase'',
      mk_row ''Bacteroides fragilis'' ''Obesity'' ''Increase'']"
    by (simp add: scenario_reference_def mk_row_def retained_def select_obesity_def
        no_selection_def isin_def)
  have n: "\<not> isin (Condition (mk_row ''Escherichia fergusonii'' ''Colitis'' ''Decrease''))
      (selected_condition select_obesity)"
    by (simp add: mk_row_def select_obesity_def no_selection_def isin_def)
  have e: "selected_condition select_obesity \<noteq> []"
    by (simp add: select_obesity_def no_selection_def)
  from filter_engine_retention[of _ select_asthma scenario_reference] h
  have 1: "filtered_df select_asthma scenario_reference = []" by blast
  from filter_engine_retention[of _ select_obesity scenario_reference] o
  have 2: "filtered_df select_obesity scenario_reference =
     [mk_row ''Escherichia coli'' ''Obesity'' ''Increase'',
      mk_row ''Bacteroides fragilis'' ''Obesity'' ''Increase'']"
    by simp
  from filter_engine_retention[of "mk_row ''Escherichia fergusonii'' ''Colitis'' ''Decrease''"
      select_obesity scenario_reference] n e
  have 3: "mk_row ''Escherichia fergusonii'' ''Colitis'' ''Decrease''
     \<notin> set (filtered_df select_obesity scenario_reference)"
    by blast
  from 1 2 3 show ?thesis by blast
qed

text \<open>
  C7 (Filter Engine algebra). Filtering twice with the same selections is filtering
  once; filtering with one selection map and then with another that constrains other
  columns is filtering once with the merged map; and two filter passes commute.
\<close>

theorem filter_engine_algebra:
  "filtered_df S (filtered_df S T) = filtered_df S T \<and>
   (different_columns S1 S2 \<longrightarrow>
      filtered_df S2 (filtered_df S1 T) = filtered_df (merged S1 S2) T) \<and>
   filtered_df S2 (filtered_df S1 T) = filtered_df S1 (filtered_df S2 T)"
proof (intro conjI impI)
  show "filtered_df S (filtered_df S T) = filtered_df S T"
    by (simp add: filtered_df_filter)
  show "filtered_df S2 (filtered_df S1 T) = filtered_df S1 (filtered_df S2 T)"
    by (simp add: filtered_df_filter conj_ac)
  assume d: "different_columns S1 S2"
  have "filter (retained (merged S1 S2)) T = filter (\<lambda>x. retained S1 x \<and> retained S2 x) T"
    by (rule filter_cong[OF refl]) (rule retained_merged[OF d])
  then show "filtered_df S2 (filtered_df S1 T) = filtered_df (merged S1 S2) T"
    by (simp add: filtered_df_filter)
qed

theorem filter_engine_algebra_witness:
  "different_columns select_obesity select_increase \<and>
   filtered_df select_increase (filtered_df select_obesity scenario_reference) =
     filtered_df (merged select_obesity select_increase) scenario_reference \<and>
   filtered_df (merged select_obesity select_increase) scenario_reference =
     [mk_row ''Escherichia coli'' ''Obesity'' ''Increase'',
      mk_row ''Bacteroides fragilis'' ''Obesity'' ''Increase'']"
proof -
  have d: "different_columns select_obesity select_increase"
    by (simp add: different_columns_def select_obesity_def select_increase_def no_selection_def)
  have v: "filtered_df (merged select_obesity select_increase) scenario_reference =
     [mk_row ''Escherichia coli'' ''Obesity'' ''Increase'',
      mk_row ''Bacteroides fragilis'' ''Obesity'' ''Increase'']"
    by (simp add: filtered_df_def filter_step_def merged_def select_obesity_def
        select_increase_def no_selection_def scenario_reference_def mk_row_def isin_def)
  from filter_engine_algebra[of _ scenario_reference select_obesity select_increase] d v
  show ?thesis by blast
qed

text \<open>
  C10 (order and contents preserved). The filtered table is a subsequence of the input
  table, and the working table of every successful match, also of every successful run
  of the upload branch, is a subsequence of the reference table: the rows kept are rows
  of the input, unchanged and in their input order.
\<close>

theorem tables_are_subsequences:
  "subseq (filtered_df S T) T \<and>
   (matcher reference_df Q = Inr (w, mv, um) \<longrightarrow> subseq w reference_df) \<and>
   (upload_mode reference_df uploaded_file = Inr (w', mv', um') \<longrightarrow> subseq w' reference_df)"
proof (intro conjI impI)
  show "subseq (filtered_df S T) T" by (simp add: filtered_df_filter)
  have sub: "subseq w0 reference_df" if "matcher reference_df Q0 = Inr (w0, mv0, um0)"
    for Q0 w0 mv0 um0
  proof -
    from matcher_Inr[OF that] have "working_df reference_df Q0 = Inr w0" by simp
    from working_df_Inr[OF this] show ?thesis by simp
  qed
  {
    assume "matcher reference_df Q = Inr (w, mv, um)"
    then show "subseq w reference_df" by (rule sub)
  }
  assume "upload_mode reference_df uploaded_file = Inr (w', mv', um')"
  from upload_mode_Inr[OF this] sub show "subseq w' reference_df" by blast
qed

theorem tables_are_subsequences_witness:
  "matcher scenario_reference [Some ''escher''] =
     Inr (take 2 scenario_reference,
          {Some ''Escherichia coli'', Some ''Escherichia fergusonii''}, []) \<and>
   upload_mode scenario_reference (Some [(''Microbe'', [Some '' ESCHER'', Some ''escher''])]) =
     Inr (take 2 scenario_reference,
          {Some ''Escherichia coli'', Some ''Escherichia fergusonii''}, []) \<and>
   subseq (take 2 scenario_reference) scenario_reference \<and>
   subseq (filtered_df select_increase scenario_reference) scenario_reference"
proof -
  have u: "upload_mode scenario_reference (Some [(''Microbe'', [Some '' ESCHER'', Some ''escher''])]) =
     Inr (take 2 scenario_reference,
          {Some ''Escherichia coli'', Some ''Escherichia fergusonii''}, [])"
    by code_simp
  from tables_are_subsequences[of select_increase scenario_reference scenario_reference
      "[Some ''escher'']" "take 2 scenario_reference"
      "{Some ''Escherichia coli'', Some ''Escherichia fergusonii''}" "[]"
      "Some [(''Microbe'', [Some '' ESCHER'', Some ''escher''])]" "take 2 scenario_reference"
      "{Some ''Escherichia coli'', Some ''Escherichia fergusonii''}" "[]"]
    scenario_escher u
  show ?thesis by blast
qed

section \<open>Claims about the Sorter and the Aggregator\<close>







end
